theory Spec2Isabelle
  imports Main
begin

section \<open>The Codex instruction cache of \<open>src/lib/prompts/codex.ts\<close>\<close>

text \<open>
  \<open>getCodexInstructions\<close> reads two files of a per-user cache directory and a bundled
  file, asks the clock, talks to two HTTP endpoints and writes the two cache files. The
  embedding makes each of these explicit: the files are a record, the answers of the
  network, the clock readings and the failures of local writes are an environment the
  function is run in, and every effect (request, directory creation, file write, console
  line) is appended to a trace. A JavaScript exception is the left injection of a sum.
\<close>

subsection \<open>Data\<close>

text \<open>
  \<open>CacheMetadata\<close> is declared in \<open>../types.js\<close>; its fields are those of the object
  literal the code checks against it (\<open>satisfies CacheMetadata\<close>): \<open>etag\<close> is
  \<open>string | null\<close>, as \<open>response.headers.get\<close> returns it, \<open>lastChecked\<close> is a
  number of milliseconds.
\<close>

record CacheMetadata =
  etag :: "string option"
  tag :: string
  lastChecked :: int
  url :: string

text \<open>
  A file is missing (\<open>existsSync\<close> is false), present but not readable
  (\<open>existsSync\<close> is true and \<open>readFileSync\<close>, or the \<open>JSON.parse\<close> of what was read,
  throws), or holds a value. The metadata file is modelled by the value \<open>JSON.parse\<close>
  yields on it, at its declared type.
\<close>

datatype 'a file_state = Missing | Unreadable | Holds 'a

record filesystem =
  cache_dir :: bool
  cache_file :: "string file_state"
  metadata_file :: "CacheMetadata file_state"
  bundled_file :: "string file_state"

datatype error =
    NetworkError
  | ReleaseFetchFailed nat
  | MalformedResponse
  | HttpError nat
  | FsError

datatype log_line = FailedToFetch error | UsingCached | FallingBackToBundled

datatype event =
    FetchRelease string
  | FetchInstructions string "(string \<times> string) list"
  | MkdirCache
  | WriteCacheFile string
  | WriteMetadataFile CacheMetadata
  | ConsoleError log_line

record release_response =
  release_status :: nat
  tag_name :: "string option"

record instructions_response =
  status :: nat
  body :: "string option"
  etag_header :: "string option"

text \<open>
  The environment of one call. \<open>fetch_release\<close> is the answer to the request for the
  latest release (\<open>None\<close>: the promise rejects); \<open>tag_name\<close> is \<open>None\<close> when
  \<open>response.json()\<close> rejects. \<open>fetch_instructions\<close> answers a request by its URL and
  headers; \<open>body\<close> is \<open>None\<close> when \<open>response.text()\<close> rejects. \<open>Date.now()\<close> is read
  at the freshness check and again when the metadata is written; it counts the
  milliseconds elapsed since the epoch. A write that fails throws and leaves the file as
  it was. During a call the files change only by the writes of the call itself.
\<close>

record environment =
  fetch_release :: "release_response option"
  fetch_instructions :: "string \<Rightarrow> (string \<times> string) list \<Rightarrow> instructions_response option"
  now_at_check :: nat
  now_at_write :: nat
  mkdir_fails :: bool
  write_cache_fails :: bool
  write_metadata_fails :: bool

record world =
  files :: filesystem
  trace :: "event list"

subsection \<open>Constants and built-ins\<close>

definition GITHUB_API_RELEASES :: string where
  "GITHUB_API_RELEASES = ''https://api.github.com/repos/openai/codex/releases/latest''"

definition CACHE_TTL_MS :: int where
  "CACHE_TTL_MS = 15 * 60 * 1000"

definition CODEX_INSTRUCTIONS_URL :: "string \<Rightarrow> string" where
  "CODEX_INSTRUCTIONS_URL latestTag =
     ''https://raw.githubusercontent.com/openai/codex/'' @ latestTag
       @ ''/codex-rs/core/gpt_5_codex_prompt.md''"

text \<open>\<open>Response.ok\<close> of the Fetch API: the status is in the range 200 to 299.\<close>

definition response_ok :: "nat \<Rightarrow> bool" where
  "response_ok s = (200 \<le> s \<and> s \<le> 299)"

definition existsSync :: "'a file_state \<Rightarrow> bool" where
  "existsSync f = (case f of Missing \<Rightarrow> False | Unreadable \<Rightarrow> True | Holds _ \<Rightarrow> True)"

definition readFileSync :: "'a file_state \<Rightarrow> error + 'a" where
  "readFileSync f = (case f of Missing \<Rightarrow> Inl FsError | Unreadable \<Rightarrow> Inl FsError | Holds c \<Rightarrow> Inr c)"

text \<open>
  JavaScript truthiness, as the two guards \<open>cachedTimestamp && ...\<close> and
  \<open>if (cachedETag)\<close> use it: \<open>null\<close>, the number 0 and the empty string are false.
\<close>

definition truthy_number :: "int option \<Rightarrow> bool" where
  "truthy_number t = (case t of None \<Rightarrow> False | Some n \<Rightarrow> n \<noteq> 0)"

definition truthy_string :: "string option \<Rightarrow> bool" where
  "truthy_string s = (case s of None \<Rightarrow> False | Some x \<Rightarrow> x \<noteq> [])"

definition emit :: "event \<Rightarrow> world \<Rightarrow> world" where
  "emit e w = w\<lparr>trace := trace w @ [e]\<rparr>"

subsection \<open>The program\<close>

text \<open>Lines 20 to 25.\<close>

definition getLatestReleaseTag :: "environment \<Rightarrow> world \<Rightarrow> (error + string) \<times> world" where
  "getLatestReleaseTag env w =
     (let w1 = emit (FetchRelease GITHUB_API_RELEASES) w in
      case fetch_release env of
        None \<Rightarrow> (Inl NetworkError, w1)
      | Some response \<Rightarrow>
          if \<not> response_ok (release_status response)
          then (Inl (ReleaseFetchFailed (release_status response)), w1)
          else (case tag_name response of
                  None \<Rightarrow> (Inl MalformedResponse, w1)
                | Some t \<Rightarrow> (Inr t, w1)))"

text \<open>
  Lines 38 to 47: the three variables \<open>cachedETag\<close>, \<open>cachedTag\<close>, \<open>cachedTimestamp\<close>,
  all \<open>null\<close> when there is no metadata file.
\<close>

definition load_metadata ::
  "filesystem \<Rightarrow> error + (string option \<times> string option \<times> int option)" where
  "load_metadata f =
     (if existsSync (metadata_file f)
      then (case readFileSync (metadata_file f) of
              Inl e \<Rightarrow> Inl e
            | Inr metadata \<Rightarrow>
                Inr (etag metadata, Some (tag metadata), Some (lastChecked metadata)))
      else Inr (None, None, None))"

text \<open>Line 51, without the \<open>existsSync(CACHE_FILE)\<close> conjunct.\<close>

definition within_ttl :: "int option \<Rightarrow> nat \<Rightarrow> bool" where
  "within_ttl cachedTimestamp now =
     (case cachedTimestamp of
        None \<Rightarrow> False
      | Some t \<Rightarrow> truthy_number cachedTimestamp \<and> int now - t < CACHE_TTL_MS)"

text \<open>Lines 81 to 104: the branch of a response that is \<open>ok\<close>.\<close>

definition store_instructions ::
  "environment \<Rightarrow> instructions_response \<Rightarrow> string \<Rightarrow> string \<Rightarrow> world
     \<Rightarrow> (error + string) \<times> world" where
  "store_instructions env response latestTag u w =
     (case body response of
        None \<Rightarrow> (Inl NetworkError, w)
      | Some instructions \<Rightarrow>
          let newETag = etag_header response in
          if \<not> cache_dir (files w) \<and> mkdir_fails env then (Inl FsError, w)
          else
            let w1 = (if \<not> cache_dir (files w)
                      then emit MkdirCache (w\<lparr>files := (files w)\<lparr>cache_dir := True\<rparr>\<rparr>)
                      else w) in
            if write_cache_fails env then (Inl FsError, w1)
            else
              let w2 = emit (WriteCacheFile instructions)
                         (w1\<lparr>files := (files w1)\<lparr>cache_file := Holds instructions\<rparr>\<rparr>) in
              if write_metadata_fails env then (Inl FsError, w2)
              else
                let metadata = \<lparr>etag = newETag, tag = latestTag,
                                lastChecked = int (now_at_write env), url = u\<rparr>;
                    w3 = emit (WriteMetadataFile metadata)
                           (w2\<lparr>files := (files w2)\<lparr>metadata_file := Holds metadata\<rparr>\<rparr>)
                in (Inr instructions, w3))"

text \<open>Lines 60 to 62: a new release tag drops the cached ETag.\<close>

definition reset_etag :: "string option \<Rightarrow> string option \<Rightarrow> string \<Rightarrow> string option" where
  "reset_etag cachedETag cachedTag latestTag =
     (if cachedTag \<noteq> Some latestTag then None else cachedETag)"

text \<open>Lines 65 to 68: the headers of the conditional request.\<close>

definition conditional_headers :: "string option \<Rightarrow> (string \<times> string) list" where
  "conditional_headers cachedETag =
     (if truthy_string cachedETag
      then (case cachedETag of Some e \<Rightarrow> [(''If-None-Match'', e)] | None \<Rightarrow> [])
      else [])"

text \<open>Lines 57 to 106: from the resolved tag to the end of the \<open>try\<close> block.\<close>

definition fetch_from_tag ::
  "environment \<Rightarrow> string option \<Rightarrow> string option \<Rightarrow> string \<Rightarrow> world
     \<Rightarrow> (error + string) \<times> world" where
  "fetch_from_tag env cachedETag cachedTag latestTag w =
     (let u = CODEX_INSTRUCTIONS_URL latestTag;
          headers = conditional_headers (reset_etag cachedETag cachedTag latestTag);
          w1 = emit (FetchInstructions u headers) w
      in case fetch_instructions env u headers of
           None \<Rightarrow> (Inl NetworkError, w1)
         | Some response \<Rightarrow>
             if status response = 304 \<and> existsSync (cache_file (files w1))
             then (readFileSync (cache_file (files w1)), w1)
             else if response_ok (status response)
             then store_instructions env response latestTag u w1
             else (Inl (HttpError (status response)), w1))"

text \<open>Lines 36 to 106: the \<open>try\<close> block.\<close>

definition try_block :: "environment \<Rightarrow> world \<Rightarrow> (error + string) \<times> world" where
  "try_block env w =
     (case load_metadata (files w) of
        Inl e \<Rightarrow> (Inl e, w)
      | Inr (cachedETag, cachedTag, cachedTimestamp) \<Rightarrow>
          if within_ttl cachedTimestamp (now_at_check env) \<and> existsSync (cache_file (files w))
          then (readFileSync (cache_file (files w)), w)
          else (case getLatestReleaseTag env w of
                  (Inl e, w1) \<Rightarrow> (Inl e, w1)
                | (Inr latestTag, w1) \<Rightarrow>
                    fetch_from_tag env cachedETag cachedTag latestTag w1))"

text \<open>Lines 107 to 123: the \<open>catch\<close> block. What it throws reaches the caller.\<close>

definition catch_block :: "error \<Rightarrow> world \<Rightarrow> (error + string) \<times> world" where
  "catch_block err w =
     (let w1 = emit (ConsoleError (FailedToFetch err)) w in
      if existsSync (cache_file (files w1))
      then (let w2 = emit (ConsoleError UsingCached) w1
            in (readFileSync (cache_file (files w2)), w2))
      else (let w2 = emit (ConsoleError FallingBackToBundled) w1
            in (readFileSync (bundled_file (files w2)), w2)))"

text \<open>Lines 35 to 124, run on the files \<open>f\<close> with an empty trace.\<close>

definition getCodexInstructions :: "environment \<Rightarrow> filesystem \<Rightarrow> (error + string) \<times> world" where
  "getCodexInstructions env f =
     (case try_block env \<lparr>files = f, trace = []\<rparr> of
        (Inr instructions, w) \<Rightarrow> (Inr instructions, w)
      | (Inl err, w) \<Rightarrow> catch_block err w)"

subsection \<open>Observations on a run\<close>

fun is_network_call :: "event \<Rightarrow> bool" where
  "is_network_call (FetchRelease _) = True"
| "is_network_call (FetchInstructions _ _) = True"
| "is_network_call _ = False"

definition network_calls :: "world \<Rightarrow> event list" where
  "network_calls w = filter is_network_call (trace w)"

fun is_file_write :: "event \<Rightarrow> bool" where
  "is_file_write (WriteCacheFile _) = True"
| "is_file_write (WriteMetadataFile _) = True"
| "is_file_write _ = False"

definition file_writes :: "world \<Rightarrow> event list" where
  "file_writes w = filter is_file_write (trace w)"

text \<open>
  \<open>requested env f t u h\<close>: on the files \<open>f\<close> the run gets past the freshness check,
  resolves the release tag \<open>t\<close> and requests the instructions at the URL \<open>u\<close> with the
  headers \<open>h\<close>.
\<close>

definition requested ::
  "environment \<Rightarrow> filesystem \<Rightarrow> string \<Rightarrow> string \<Rightarrow> (string \<times> string) list \<Rightarrow> bool" where
  "requested env f t u h =
     (case load_metadata f of
        Inl _ \<Rightarrow> False
      | Inr (cachedETag, cachedTag, cachedTimestamp) \<Rightarrow>
          \<not> (within_ttl cachedTimestamp (now_at_check env) \<and> existsSync (cache_file f))
          \<and> fst (getLatestReleaseTag env \<lparr>files = f, trace = []\<rparr>) = Inr t
          \<and> u = CODEX_INSTRUCTIONS_URL t
          \<and> h = conditional_headers (reset_etag cachedETag cachedTag t))"

text \<open>The two requests of a run that reaches the second one.\<close>

definition requests :: "string \<Rightarrow> (string \<times> string) list \<Rightarrow> event list" where
  "requests u h = [FetchRelease GITHUB_API_RELEASES, FetchInstructions u h]"

text \<open>The directory creation of lines 86 to 88, as it shows in the trace.\<close>

definition mkdir_events :: "filesystem \<Rightarrow> event list" where
  "mkdir_events f = (if cache_dir f then [] else [MkdirCache])"

subsection \<open>Example environments and files\<close>

text \<open>
  An upstream whose latest release is \<open>v2\<close> and which answers a request without
  \<open>If-None-Match\<close> by the full document and a conditional request by 304; an
  unreachable network; a release index that answers 403; an empty cache; and a cache of
  release \<open>v2\<close> last checked at time 1000.
\<close>

definition release_v2 :: release_response where
  "release_v2 = \<lparr>release_status = 200, tag_name = Some ''v2''\<rparr>"

definition upstream :: "string \<Rightarrow> (string \<times> string) list \<Rightarrow> instructions_response option" where
  "upstream u h =
     (if h = [] then Some \<lparr>status = 200, body = Some ''fresh'', etag_header = Some ''e1''\<rparr>
      else Some \<lparr>status = 304, body = None, etag_header = None\<rparr>)"

definition online :: environment where
  "online = \<lparr>fetch_release = Some release_v2, fetch_instructions = upstream,
     now_at_check = 5000000, now_at_write = 5000100,
     mkdir_fails = False, write_cache_fails = False, write_metadata_fails = False\<rparr>"

definition offline :: environment where
  "offline = online\<lparr>fetch_release := None, fetch_instructions := (\<lambda>u h. None)\<rparr>"

definition rate_limited :: environment where
  "rate_limited = online\<lparr>fetch_release := Some \<lparr>release_status = 403, tag_name = None\<rparr>\<rparr>"

definition no_cache :: filesystem where
  "no_cache = \<lparr>cache_dir = False, cache_file = Missing, metadata_file = Missing,
     bundled_file = Holds ''bundled''\<rparr>"

definition metadata_v2 :: CacheMetadata where
  "metadata_v2 = \<lparr>etag = Some ''e1'', tag = ''v2'', lastChecked = 1000,
     url = CODEX_INSTRUCTIONS_URL ''v2''\<rparr>"

definition cached_v2 :: filesystem where
  "cached_v2 = \<lparr>cache_dir = True, cache_file = Holds ''cached'',
     metadata_file = Holds metadata_v2, bundled_file = Holds ''bundled''\<rparr>"

section \<open>Symbolic execution\<close>

lemmas example_defs =
  release_v2_def upstream_def online_def offline_def rate_limited_def no_cache_def
  metadata_v2_def cached_v2_def

lemmas run_defs =
  getCodexInstructions_def try_block_def catch_block_def getLatestReleaseTag_def
  fetch_from_tag_def store_instructions_def load_metadata_def within_ttl_def
  reset_etag_def conditional_headers_def truthy_number_def truthy_string_def
  response_ok_def emit_def CACHE_TTL_MS_def network_calls_def file_writes_def
  requests_def Let_def

lemma existsSync_simps [simp]:
  "existsSync Missing = False" "existsSync Unreadable = True" "existsSync (Holds c) = True"
  by (simp_all add: existsSync_def)

lemma readFileSync_simps [simp]:
  "readFileSync Missing = Inl FsError" "readFileSync Unreadable = Inl FsError"
  "readFileSync (Holds c) = Inr c"
  by (simp_all add: readFileSync_def)

lemma load_metadata_simps:
  "metadata_file f = Missing \<Longrightarrow> load_metadata f = Inr (None, None, None)"
  "metadata_file f = Unreadable \<Longrightarrow> load_metadata f = Inl FsError"
  "metadata_file f = Holds m \<Longrightarrow> load_metadata f = Inr (etag m, Some (tag m), Some (lastChecked m))"
  by (simp_all add: load_metadata_def existsSync_def readFileSync_def)

lemma getLatestReleaseTag_world:
  "snd (getLatestReleaseTag env w) = emit (FetchRelease GITHUB_API_RELEASES) w"
  by (simp add: getLatestReleaseTag_def Let_def split: option.splits)

text \<open>
  One rule per function: each outcome of the function is a case, with the result, the
  files and the trace it leaves.
\<close>

lemma store_instructions_cases [consumes 1, case_names body_fails mkdir_fails
    cache_write_fails metadata_write_fails stored]:
  assumes "store_instructions env r t u w = (res, w')"
  obtains
    (body_fails) "body r = None" "res = Inl NetworkError" "w' = w"
  | (mkdir_fails) c where "body r = Some c" "\<not> cache_dir (files w)" "mkdir_fails env"
      "res = Inl FsError" "w' = w"
  | (cache_write_fails) c where "body r = Some c" "cache_dir (files w) \<or> \<not> mkdir_fails env"
      "write_cache_fails env" "res = Inl FsError"
      "files w' = (files w)\<lparr>cache_dir := True\<rparr>"
      "trace w' = trace w @ (if cache_dir (files w) then [] else [MkdirCache])"
  | (metadata_write_fails) c where "body r = Some c" "cache_dir (files w) \<or> \<not> mkdir_fails env"
      "\<not> write_cache_fails env" "write_metadata_fails env" "res = Inl FsError"
      "files w' = (files w)\<lparr>cache_dir := True, cache_file := Holds c\<rparr>"
      "trace w' = trace w @ (if cache_dir (files w) then [] else [MkdirCache]) @ [WriteCacheFile c]"
  | (stored) c where "body r = Some c" "cache_dir (files w) \<or> \<not> mkdir_fails env"
      "\<not> write_cache_fails env" "\<not> write_metadata_fails env" "res = Inr c"
      "files w' = (files w)\<lparr>cache_dir := True, cache_file := Holds c,
         metadata_file := Holds \<lparr>etag = etag_header r, tag = t,
           lastChecked = int (now_at_write env), url = u\<rparr>\<rparr>"
      "trace w' = trace w @ (if cache_dir (files w) then [] else [MkdirCache])
         @ [WriteCacheFile c, WriteMetadataFile \<lparr>etag = etag_header r, tag = t,
              lastChecked = int (now_at_write env), url = u\<rparr>]"
proof (cases "body r")
  case None
  with assms have "res = Inl NetworkError" "w' = w"
    by (simp_all add: store_instructions_def)
  with None show ?thesis by (rule body_fails)
next
  case (Some c)
  show ?thesis
  proof (cases "\<not> cache_dir (files w) \<and> mkdir_fails env")
    case True
    with assms Some have "res = Inl FsError" "w' = w"
      by (simp_all add: store_instructions_def)
    moreover from True have "\<not> cache_dir (files w)" "mkdir_fails env" by simp_all
    ultimately show ?thesis using Some by (simp add: mkdir_fails)
  next
    case dir: False
    then have dir': "cache_dir (files w) \<or> \<not> mkdir_fails env" by blast
    show ?thesis
    proof (cases "write_cache_fails env")
      case True
      with assms Some dir have "res = Inl FsError"
        "files w' = (files w)\<lparr>cache_dir := True\<rparr>"
        "trace w' = trace w @ (if cache_dir (files w) then [] else [MkdirCache])"
        by (auto simp: store_instructions_def emit_def)
      with Some dir' True show ?thesis by (rule cache_write_fails)
    next
      case cw: False
      show ?thesis
      proof (cases "write_metadata_fails env")
        case True
        with assms Some dir cw have "res = Inl FsError"
          "files w' = (files w)\<lparr>cache_dir := True, cache_file := Holds c\<rparr>"
          "trace w' = trace w @ (if cache_dir (files w) then [] else [MkdirCache]) @ [WriteCacheFile c]"
          by (auto simp: store_instructions_def emit_def Let_def)
        with Some dir' cw True show ?thesis by (rule metadata_write_fails)
      next
        case False
        with assms Some dir cw have "res = Inr c"
          "files w' = (files w)\<lparr>cache_dir := True, cache_file := Holds c,
             metadata_file := Holds \<lparr>etag = etag_header r, tag = t,
               lastChecked = int (now_at_write env), url = u\<rparr>\<rparr>"
          "trace w' = trace w @ (if cache_dir (files w) then [] else [MkdirCache])
             @ [WriteCacheFile c, WriteMetadataFile \<lparr>etag = etag_header r, tag = t,
                  lastChecked = int (now_at_write env), url = u\<rparr>]"
          by (auto simp: store_instructions_def emit_def Let_def)
        with Some dir' cw False show ?thesis by (rule stored)
      qed
    qed
  qed
qed

lemma fetch_from_tag_cases [consumes 1, case_names rejected not_modified ok http_error]:
  assumes "fetch_from_tag env e0 t0 t w = (res, w')"
  obtains
    (rejected)
      "fetch_instructions env (CODEX_INSTRUCTIONS_URL t) (conditional_headers (reset_etag e0 t0 t)) = None"
      "res = Inl NetworkError"
      "w' = emit (FetchInstructions (CODEX_INSTRUCTIONS_URL t) (conditional_headers (reset_etag e0 t0 t))) w"
  | (not_modified) r where
      "fetch_instructions env (CODEX_INSTRUCTIONS_URL t) (conditional_headers (reset_etag e0 t0 t)) = Some r"
      "status r = 304" "existsSync (cache_file (files w))"
      "res = readFileSync (cache_file (files w))"
      "w' = emit (FetchInstructions (CODEX_INSTRUCTIONS_URL t) (conditional_headers (reset_etag e0 t0 t))) w"
  | (ok) r where
      "fetch_instructions env (CODEX_INSTRUCTIONS_URL t) (conditional_headers (reset_etag e0 t0 t)) = Some r"
      "response_ok (status r)"
      "store_instructions env r t (CODEX_INSTRUCTIONS_URL t)
         (emit (FetchInstructions (CODEX_INSTRUCTIONS_URL t) (conditional_headers (reset_etag e0 t0 t))) w)
       = (res, w')"
  | (http_error) r where
      "fetch_instructions env (CODEX_INSTRUCTIONS_URL t) (conditional_headers (reset_etag e0 t0 t)) = Some r"
      "\<not> response_ok (status r)" "status r = 304 \<longrightarrow> \<not> existsSync (cache_file (files w))"
      "res = Inl (HttpError (status r))"
      "w' = emit (FetchInstructions (CODEX_INSTRUCTIONS_URL t) (conditional_headers (reset_etag e0 t0 t))) w"
proof -
  let ?u = "CODEX_INSTRUCTIONS_URL t"
  let ?h = "conditional_headers (reset_etag e0 t0 t)"
  let ?w1 = "emit (FetchInstructions ?u ?h) w"
  have same_files: "files ?w1 = files w" by (simp add: emit_def)
  show ?thesis
  proof (cases "fetch_instructions env ?u ?h")
    case None
    with assms have "res = Inl NetworkError" "w' = ?w1"
      by (simp_all add: fetch_from_tag_def Let_def)
    with None show ?thesis by (rule rejected)
  next
    case (Some r)
    show ?thesis
    proof (cases "status r = 304 \<and> existsSync (cache_file (files w))")
      case True
      with assms Some same_files have "res = readFileSync (cache_file (files w))" "w' = ?w1"
        by (simp_all add: fetch_from_tag_def Let_def)
      moreover from True have "status r = 304" "existsSync (cache_file (files w))" by simp_all
      ultimately show ?thesis using Some by (simp add: not_modified)
    next
      case nm: False
      show ?thesis
      proof (cases "response_ok (status r)")
        case True
        with assms Some same_files nm
        have "store_instructions env r t ?u ?w1 = (res, w')"
          by (simp add: fetch_from_tag_def Let_def)
        with Some True show ?thesis by (rule ok)
      next
        case False
        with assms Some same_files nm have "res = Inl (HttpError (status r))" "w' = ?w1"
          by (simp_all add: fetch_from_tag_def Let_def)
        moreover from nm have "status r = 304 \<longrightarrow> \<not> existsSync (cache_file (files w))" by blast
        ultimately show ?thesis using Some False by (simp add: http_error)
      qed
    qed
  qed
qed

lemma try_block_cases [consumes 1, case_names metadata_unreadable fresh release_fails fetch]:
  assumes "try_block env w = (res, w')"
  obtains
    (metadata_unreadable) "metadata_file (files w) = Unreadable" "res = Inl FsError" "w' = w"
  | (fresh) e0 t0 ts where "load_metadata (files w) = Inr (e0, t0, ts)"
      "within_ttl ts (now_at_check env)" "existsSync (cache_file (files w))"
      "res = readFileSync (cache_file (files w))" "w' = w"
  | (release_fails) e0 t0 ts e where "load_metadata (files w) = Inr (e0, t0, ts)"
      "within_ttl ts (now_at_check env) \<longrightarrow> \<not> existsSync (cache_file (files w))"
      "fst (getLatestReleaseTag env w) = Inl e" "res = Inl e"
      "w' = emit (FetchRelease GITHUB_API_RELEASES) w"
  | (fetch) e0 t0 ts latestTag where "load_metadata (files w) = Inr (e0, t0, ts)"
      "within_ttl ts (now_at_check env) \<longrightarrow> \<not> existsSync (cache_file (files w))"
      "fst (getLatestReleaseTag env w) = Inr latestTag"
      "fetch_from_tag env e0 t0 latestTag (emit (FetchRelease GITHUB_API_RELEASES) w) = (res, w')"
proof (cases "load_metadata (files w)")
  case (Inl e)
  then have "metadata_file (files w) = Unreadable" "e = FsError"
    by (auto simp: load_metadata_def existsSync_def readFileSync_def
        split: if_splits file_state.splits)
  moreover from assms Inl have "res = Inl e" "w' = w"
    by (simp_all add: try_block_def)
  ultimately show ?thesis by (simp add: metadata_unreadable)
next
  case (Inr triple)
  obtain e0 t0 ts where triple: "triple = (e0, t0, ts)" by (cases triple)
  note meta = Inr[unfolded triple]
  show ?thesis
  proof (cases "within_ttl ts (now_at_check env) \<and> existsSync (cache_file (files w))")
    case True
    with assms meta have "res = readFileSync (cache_file (files w))" "w' = w"
      by (auto simp: try_block_def)
    moreover from True have "within_ttl ts (now_at_check env)" "existsSync (cache_file (files w))"
      by simp_all
    ultimately show ?thesis using meta by (simp add: fresh)
  next
    case False
    then have stale: "within_ttl ts (now_at_check env) \<longrightarrow> \<not> existsSync (cache_file (files w))"
      by blast
    obtain r1 w1 where rel: "getLatestReleaseTag env w = (r1, w1)"
      by (cases "getLatestReleaseTag env w")
    with getLatestReleaseTag_world[of env w]
    have w1: "w1 = emit (FetchRelease GITHUB_API_RELEASES) w" by simp
    show ?thesis
    proof (cases r1)
      case (Inl e)
      with assms meta False rel have "res = Inl e" "w' = w1"
        by (simp_all add: try_block_def)
      moreover from rel Inl have "fst (getLatestReleaseTag env w) = Inl e" by simp
      ultimately show ?thesis using meta stale w1 by (simp add: release_fails)
    next
      case (Inr latestTag)
      with assms meta False rel have "fetch_from_tag env e0 t0 latestTag w1 = (res, w')"
        by (simp add: try_block_def)
      moreover from rel Inr have "fst (getLatestReleaseTag env w) = Inr latestTag" by simp
      ultimately show ?thesis using meta stale w1 by (simp add: fetch)
    qed
  qed
qed

lemma catch_block_result:
  "fst (catch_block e w) =
     (if existsSync (cache_file (files w)) then readFileSync (cache_file (files w))
      else readFileSync (bundled_file (files w)))"
  by (simp add: catch_block_def emit_def Let_def)

lemma catch_block_files: "files (snd (catch_block e w)) = files w"
  by (simp add: catch_block_def emit_def Let_def)

lemma catch_block_trace:
  "trace (snd (catch_block e w)) =
     trace w @ [ConsoleError (FailedToFetch e),
       ConsoleError (if existsSync (cache_file (files w)) then UsingCached
                     else FallingBackToBundled)]"
  by (simp add: catch_block_def emit_def Let_def)

lemma getCodexInstructions_unfold:
  assumes "try_block env \<lparr>files = f, trace = []\<rparr> = (res, w)"
  shows "getCodexInstructions env f =
           (case res of Inr instructions \<Rightarrow> (Inr instructions, w) | Inl err \<Rightarrow> catch_block err w)"
  using assms by (simp add: getCodexInstructions_def split: sum.splits)

lemma catch_blockD:
  assumes "(res, w) = catch_block e w0"
  shows "files w = files w0
    \<and> trace w = trace w0 @ [ConsoleError (FailedToFetch e),
           ConsoleError (if existsSync (cache_file (files w0)) then UsingCached
                         else FallingBackToBundled)]
    \<and> res = (if existsSync (cache_file (files w0)) then readFileSync (cache_file (files w0))
                else readFileSync (bundled_file (files w0)))"
  using catch_block_files[of e w0] catch_block_trace[of e w0] catch_block_result[of e w0]
    assms[symmetric]
  by simp

lemma requestedD:
  assumes "requested env f t u h"
  shows "fst (getLatestReleaseTag env \<lparr>files = f, trace = []\<rparr>) = Inr t"
    and "u = CODEX_INSTRUCTIONS_URL t"
    and "metadata_file f \<noteq> Unreadable"
    and "\<forall>m. metadata_file f = Holds m \<longrightarrow> tag m \<noteq> t \<Longrightarrow> h = []"
  using assms
  by (cases "metadata_file f";
      simp add: requested_def load_metadata_simps reset_etag_def conditional_headers_def
        truthy_string_def)+

lemma run_exists: "\<exists>res w. getCodexInstructions env f = (res, w)"
  by (cases "getCodexInstructions env f") simp

text \<open>
  The thirteen ways a call can go, from the first line to the \<open>return\<close> or the
  \<open>throw\<close> that ends it.
\<close>

lemma run_cases [consumes 1, case_names metadata_unreadable fresh fresh_unreadable release_fails
    rejected not_modified not_modified_unreadable http_error body_fails mkdir_fails
    cache_write_fails metadata_write_fails stored]:
  assumes "getCodexInstructions env f = (res, w)"
  obtains
    (metadata_unreadable) "metadata_file f = Unreadable"
      "(res, w) = catch_block FsError \<lparr>files = f, trace = []\<rparr>"
  | (fresh) e0 t0 ts c where "load_metadata f = Inr (e0, t0, ts)"
      "within_ttl ts (now_at_check env)" "cache_file f = Holds c"
      "res = Inr c" "w = \<lparr>files = f, trace = []\<rparr>"
  | (fresh_unreadable) e0 t0 ts where "load_metadata f = Inr (e0, t0, ts)"
      "within_ttl ts (now_at_check env)" "cache_file f = Unreadable"
      "(res, w) = catch_block FsError \<lparr>files = f, trace = []\<rparr>"
  | (release_fails) e0 t0 ts e where "load_metadata f = Inr (e0, t0, ts)"
      "within_ttl ts (now_at_check env) \<longrightarrow> cache_file f = Missing"
      "fst (getLatestReleaseTag env \<lparr>files = f, trace = []\<rparr>) = Inl e"
      "(res, w) = catch_block e \<lparr>files = f, trace = [FetchRelease GITHUB_API_RELEASES]\<rparr>"
  | (rejected) t u h where "requested env f t u h" "fetch_instructions env u h = None"
      "(res, w) = catch_block NetworkError \<lparr>files = f, trace = requests u h\<rparr>"
  | (not_modified) t u h r c where "requested env f t u h" "fetch_instructions env u h = Some r"
      "status r = 304" "cache_file f = Holds c"
      "res = Inr c" "w = \<lparr>files = f, trace = requests u h\<rparr>"
  | (not_modified_unreadable) t u h r where "requested env f t u h"
      "fetch_instructions env u h = Some r" "status r = 304" "cache_file f = Unreadable"
      "(res, w) = catch_block FsError \<lparr>files = f, trace = requests u h\<rparr>"
  | (http_error) t u h r where "requested env f t u h" "fetch_instructions env u h = Some r"
      "\<not> response_ok (status r)" "status r = 304 \<longrightarrow> cache_file f = Missing"
      "(res, w) = catch_block (HttpError (status r)) \<lparr>files = f, trace = requests u h\<rparr>"
  | (body_fails) t u h r where "requested env f t u h" "fetch_instructions env u h = Some r"
      "response_ok (status r)" "body r = None"
      "(res, w) = catch_block NetworkError \<lparr>files = f, trace = requests u h\<rparr>"
  | (mkdir_fails) t u h r c where "requested env f t u h" "fetch_instructions env u h = Some r"
      "response_ok (status r)" "body r = Some c" "\<not> cache_dir f" "mkdir_fails env"
      "(res, w) = catch_block FsError \<lparr>files = f, trace = requests u h\<rparr>"
  | (cache_write_fails) t u h r c where "requested env f t u h"
      "fetch_instructions env u h = Some r"
      "response_ok (status r)" "body r = Some c" "cache_dir f \<or> \<not> mkdir_fails env"
      "write_cache_fails env"
      "(res, w) = catch_block FsError
         \<lparr>files = f\<lparr>cache_dir := True\<rparr>, trace = requests u h @ mkdir_events f\<rparr>"
  | (metadata_write_fails) t u h r c where "requested env f t u h"
      "fetch_instructions env u h = Some r"
      "response_ok (status r)" "body r = Some c" "cache_dir f \<or> \<not> mkdir_fails env"
      "\<not> write_cache_fails env" "write_metadata_fails env"
      "(res, w) = catch_block FsError
         \<lparr>files = f\<lparr>cache_dir := True, cache_file := Holds c\<rparr>,
          trace = requests u h @ mkdir_events f @ [WriteCacheFile c]\<rparr>"
  | (stored) t u h r c m where "requested env f t u h" "fetch_instructions env u h = Some r"
      "response_ok (status r)" "body r = Some c" "cache_dir f \<or> \<not> mkdir_fails env"
      "\<not> write_cache_fails env" "\<not> write_metadata_fails env"
      "m = \<lparr>etag = etag_header r, tag = t, lastChecked = int (now_at_write env), url = u\<rparr>"
      "res = Inr c"
      "w = \<lparr>files = f\<lparr>cache_dir := True, cache_file := Holds c, metadata_file := Holds m\<rparr>,
            trace = requests u h @ mkdir_events f @ [WriteCacheFile c, WriteMetadataFile m]\<rparr>"
proof -
  let ?w0 = "\<lparr>files = f, trace = []\<rparr>"
  obtain r0 w' where tb: "try_block env ?w0 = (r0, w')"
    by (cases "try_block env ?w0")
  have run: "(res, w) = (case r0 of Inr instructions \<Rightarrow> (Inr instructions, w')
                         | Inl err \<Rightarrow> catch_block err w')"
    using getCodexInstructions_unfold[OF tb] assms by simp
  from tb show thesis
  proof (cases rule: try_block_cases)
    case metadata_unreadable
    with run show ?thesis by (simp add: that(1))
  next
    case (fresh e0 t0 ts)
    show ?thesis
    proof (cases "cache_file f")
      case Missing
      with fresh show ?thesis by simp
    next
      case Unreadable
      with fresh run show ?thesis by (simp add: that(3))
    next
      case (Holds c)
      with fresh run show ?thesis by (simp add: that(2))
    qed
  next
    case (release_fails e0 t0 ts e)
    with run show ?thesis
      by (cases "cache_file f") (simp_all add: that(4) emit_def)
  next
    case (fetch e0 t0 ts t)
    let ?u = "CODEX_INSTRUCTIONS_URL t"
    let ?h = "conditional_headers (reset_etag e0 t0 t)"
    have req: "requested env f t ?u ?h"
      using fetch(1-3) by (simp add: requested_def)
    have w2: "emit (FetchInstructions ?u ?h) (emit (FetchRelease GITHUB_API_RELEASES) ?w0)
                = \<lparr>files = f, trace = requests ?u ?h\<rparr>"
      by (simp add: emit_def requests_def)
    from fetch(4) show ?thesis
    proof (cases rule: fetch_from_tag_cases)
      case rejected
      with run req w2 show ?thesis by (simp add: that(5))
    next
      case (not_modified r)
      show ?thesis
      proof (cases "cache_file f")
        case Missing
        with not_modified show ?thesis by (simp add: emit_def)
      next
        case Unreadable
        with not_modified run req w2 show ?thesis
          by (simp add: that(7) emit_def)
      next
        case (Holds c)
        with not_modified run req w2 show ?thesis by (simp add: that(6) emit_def)
      qed
    next
      case (http_error r)
      with run req w2 show ?thesis
        by (cases "cache_file f") (simp_all add: that(8) emit_def)
    next
      case (ok r)
      from ok(3) show ?thesis
      proof (cases rule: store_instructions_cases)
        case body_fails
        with ok run req w2 show ?thesis by (simp add: that(9))
      next
        case (mkdir_fails c)
        with ok run req w2 show ?thesis by (simp add: that(10) emit_def)
      next
        case (cache_write_fails c)
        have "w' = \<lparr>files = f\<lparr>cache_dir := True\<rparr>, trace = requests ?u ?h @ mkdir_events f\<rparr>"
          using cache_write_fails(5,6) by (cases w') (simp add: emit_def requests_def mkdir_events_def)
        with cache_write_fails(1-4) ok(1,2) run req show ?thesis
          by (simp add: that(11) emit_def)
      next
        case (metadata_write_fails c)
        have "w' = \<lparr>files = f\<lparr>cache_dir := True, cache_file := Holds c\<rparr>,
                    trace = requests ?u ?h @ mkdir_events f @ [WriteCacheFile c]\<rparr>"
          using metadata_write_fails(6,7)
          by (cases w') (simp add: emit_def requests_def mkdir_events_def)
        with metadata_write_fails(1-5) ok(1,2) run req show ?thesis
          by (simp add: that(12) emit_def)
      next
        case (stored c)
        let ?m = "\<lparr>etag = etag_header r, tag = t, lastChecked = int (now_at_write env), url = ?u\<rparr>"
        have "w' = \<lparr>files = f\<lparr>cache_dir := True, cache_file := Holds c, metadata_file := Holds ?m\<rparr>,
                    trace = requests ?u ?h @ mkdir_events f @ [WriteCacheFile c, WriteMetadataFile ?m]\<rparr>"
          using stored(6,7)
          by (cases w') (simp add: emit_def requests_def mkdir_events_def)
        with stored(1-5) ok(1,2) run req show ?thesis
          by (simp add: that(13)[where m = ?m] emit_def)
      qed
    qed
  qed
qed



section \<open>The claims\<close>

subsection \<open>C1\<close>

text \<open>
  Claim C1, as amended. The claim says that the call resolves to some text in every
  environment. The \<open>catch\<close> block reads the cache file, or the bundled file, outside any
  handler, so the call resolves to some text whenever those reads succeed: the cache
  file holds content, or it is missing and the bundled file holds content. Under that
  condition no failure of the network, of the metadata read, of the directory creation
  or of a write reaches the caller.
\<close>

theorem getCodexInstructions_resolves_when_fallback_readable:
  assumes "(\<exists>c. cache_file f = Holds c)
           \<or> (cache_file f = Missing \<and> (\<exists>b. bundled_file f = Holds b))"
  shows "\<exists>instructions. fst (getCodexInstructions env f) = Inr instructions"
proof -
  obtain res w where run: "getCodexInstructions env f = (res, w)"
    using run_exists by blast
  from run have "\<exists>instructions. res = Inr instructions"
    using assms
    by (cases rule: run_cases) (auto dest!: catch_blockD)
  with run show ?thesis by simp
qed

text \<open>
  Witness for C1: no network and no cache, the bundled document is served.
\<close>

theorem getCodexInstructions_resolves_when_fallback_readable_witness:
  "((\<exists>c. cache_file no_cache = Holds c)
     \<or> (cache_file no_cache = Missing \<and> (\<exists>b. bundled_file no_cache = Holds b)))
   \<and> (\<exists>instructions. fst (getCodexInstructions offline no_cache) = Inr instructions)"
  using getCodexInstructions_resolves_when_fallback_readable[of no_cache offline]
  by (simp add: no_cache_def)

text \<open>
  Counterexample to C1 as stated: the network is unreachable and the cache file exists
  but cannot be read. The read of line 117 throws inside the \<open>catch\<close> block and the
  call rejects, although the bundled document is there.
\<close>

theorem getCodexInstructions_throws_on_unreadable_cache:
  "fst (getCodexInstructions offline (no_cache\<lparr>cache_file := Unreadable\<rparr>)) = Inl FsError"
  by (simp add: run_defs example_defs)

subsection \<open>C2\<close>




subsection \<open>C3\<close>



subsection \<open>C4\<close>

text \<open>
  Claim C4. When the resolved tag differs from the cached tag, or there is no metadata,
  every request for the instructions that the call makes is for the URL of the resolved
  tag and carries no header: no \<open>If-None-Match\<close> is sent, whatever ETag was stored.
\<close>

theorem tag_change_sends_no_validator:
  assumes "fst (getLatestReleaseTag env \<lparr>files = f, trace = []\<rparr>) = Inr latestTag"
    and "\<forall>m. metadata_file f = Holds m \<longrightarrow> tag m \<noteq> latestTag"
  shows "\<forall>u h. FetchInstructions u h \<in> set (trace (snd (getCodexInstructions env f)))
           \<longrightarrow> u = CODEX_INSTRUCTIONS_URL latestTag \<and> h = []"
proof -
  obtain res w where run: "getCodexInstructions env f = (res, w)"
    using run_exists by blast
  have req: "u = CODEX_INSTRUCTIONS_URL latestTag \<and> h = []" if "requested env f t u h" for t u h
    using requestedD(1,2,4)[OF that] assms by simp
  from run have "\<forall>u h. FetchInstructions u h \<in> set (trace w)
           \<longrightarrow> u = CODEX_INSTRUCTIONS_URL latestTag \<and> h = []"
    by (cases rule: run_cases)
      (auto dest!: catch_blockD req simp: requests_def mkdir_events_def split: if_splits)
  with run show ?thesis by simp
qed

text \<open>
  Witness for C4: the metadata is of release \<open>v1\<close> with the ETag \<open>e1\<close>, the latest
  release is \<open>v2\<close>; the request is sent, without a header.
\<close>

theorem tag_change_sends_no_validator_witness:
  "fst (getLatestReleaseTag online
      \<lparr>files = cached_v2\<lparr>metadata_file := Holds (metadata_v2\<lparr>tag := ''v1''\<rparr>)\<rparr>, trace = []\<rparr>)
     = Inr ''v2''
   \<and> metadata_file (cached_v2\<lparr>metadata_file := Holds (metadata_v2\<lparr>tag := ''v1''\<rparr>)\<rparr>)
       = Holds (metadata_v2\<lparr>tag := ''v1''\<rparr>)
   \<and> etag (metadata_v2\<lparr>tag := ''v1''\<rparr>) = Some ''e1''
   \<and> tag (metadata_v2\<lparr>tag := ''v1''\<rparr>) \<noteq> ''v2''
   \<and> FetchInstructions (CODEX_INSTRUCTIONS_URL ''v2'') []
       \<in> set (trace (snd (getCodexInstructions online
            (cached_v2\<lparr>metadata_file := Holds (metadata_v2\<lparr>tag := ''v1''\<rparr>)\<rparr>))))
   \<and> \<not> (\<exists>u h. FetchInstructions u h
        \<in> set (trace (snd (getCodexInstructions online
            (cached_v2\<lparr>metadata_file := Holds (metadata_v2\<lparr>tag := ''v1''\<rparr>)\<rparr>))))
        \<and> h \<noteq> [])"
proof -
  let ?f = "cached_v2\<lparr>metadata_file := Holds (metadata_v2\<lparr>tag := ''v1''\<rparr>)\<rparr>"
  have rel: "fst (getLatestReleaseTag online \<lparr>files = ?f, trace = []\<rparr>) = Inr ''v2''"
    by (simp add: example_defs getLatestReleaseTag_def emit_def response_ok_def)
  have stored: "metadata_file ?f = Holds (metadata_v2\<lparr>tag := ''v1''\<rparr>)"
    "etag (metadata_v2\<lparr>tag := ''v1''\<rparr>) = Some ''e1''"
    "tag (metadata_v2\<lparr>tag := ''v1''\<rparr>) \<noteq> ''v2''"
    by (simp_all add: example_defs)
  then have old: "\<forall>m. metadata_file ?f = Holds m \<longrightarrow> tag m \<noteq> ''v2''"
    by simp
  have sent: "FetchInstructions (CODEX_INSTRUCTIONS_URL ''v2'') []
       \<in> set (trace (snd (getCodexInstructions online ?f)))"
    by (simp add: run_defs example_defs)
  from rel stored sent tag_change_sends_no_validator[OF rel old] show ?thesis by blast
qed

subsection \<open>C5\<close>

text \<open>
  Claim C5. For the response \<open>r\<close> that the call received to its request for the
  instructions: if \<open>r\<close> is a 304, the files after the call are the files before it,
  the metadata among them; if \<open>r\<close> is \<open>ok\<close>, its body is read and the directory
  creation and the two writes do not fail, the metadata file holds afterwards a
  \<open>lastChecked\<close> equal to the clock reading of that moment.
\<close>

theorem not_modified_keeps_files_fresh_sets_lastChecked:
  assumes "FetchInstructions u h \<in> set (trace (snd (getCodexInstructions env f)))"
    and "fetch_instructions env u h = Some r"
  shows "(status r = 304 \<longrightarrow> files (snd (getCodexInstructions env f)) = f) \<and>
         (response_ok (status r) \<and> body r \<noteq> None
            \<and> (cache_dir f \<or> \<not> mkdir_fails env)
            \<and> \<not> write_cache_fails env \<and> \<not> write_metadata_fails env \<longrightarrow>
          (\<exists>m. metadata_file (files (snd (getCodexInstructions env f))) = Holds m
             \<and> lastChecked m = int (now_at_write env)))"
proof -
  obtain res w where run: "getCodexInstructions env f = (res, w)"
    using run_exists by blast
  from run assms(1) have sent: "FetchInstructions u h \<in> set (trace w)" by simp
  from run have "(status r = 304 \<longrightarrow> files w = f) \<and>
         (response_ok (status r) \<and> body r \<noteq> None
            \<and> (cache_dir f \<or> \<not> mkdir_fails env)
            \<and> \<not> write_cache_fails env \<and> \<not> write_metadata_fails env \<longrightarrow>
          (\<exists>m. metadata_file (files w) = Holds m \<and> lastChecked m = int (now_at_write env)))"
    using sent assms(2)
    by (cases rule: run_cases)
      (auto dest!: catch_blockD simp: requests_def mkdir_events_def response_ok_def
        split: if_splits)
  with run show ?thesis by simp
qed

text \<open>
  Witness for C5: a stale cache of \<open>v2\<close> revalidated by a 304, and an empty cache
  filled by a 200.
\<close>

theorem not_modified_keeps_files_fresh_sets_lastChecked_witness:
  "FetchInstructions (CODEX_INSTRUCTIONS_URL ''v2'') [(''If-None-Match'', ''e1'')]
     \<in> set (trace (snd (getCodexInstructions online cached_v2)))
   \<and> fetch_instructions online (CODEX_INSTRUCTIONS_URL ''v2'') [(''If-None-Match'', ''e1'')]
       = Some \<lparr>status = 304, body = None, etag_header = None\<rparr>
   \<and> files (snd (getCodexInstructions online cached_v2)) = cached_v2
   \<and> FetchInstructions (CODEX_INSTRUCTIONS_URL ''v2'') []
       \<in> set (trace (snd (getCodexInstructions online no_cache)))
   \<and> fetch_instructions online (CODEX_INSTRUCTIONS_URL ''v2'') []
       = Some \<lparr>status = 200, body = Some ''fresh'', etag_header = Some ''e1''\<rparr>
   \<and> (\<exists>m. metadata_file (files (snd (getCodexInstructions online no_cache))) = Holds m
        \<and> lastChecked m = int (now_at_write online))"
proof -
  let ?u = "CODEX_INSTRUCTIONS_URL ''v2''"
  let ?nm = "\<lparr>status = 304, body = None, etag_header = None\<rparr>"
  let ?ok = "\<lparr>status = 200, body = Some ''fresh'', etag_header = Some ''e1''\<rparr>"
  have sent1: "FetchInstructions ?u [(''If-None-Match'', ''e1'')]
      \<in> set (trace (snd (getCodexInstructions online cached_v2)))"
    by (simp add: run_defs example_defs)
  have answer1: "fetch_instructions online ?u [(''If-None-Match'', ''e1'')] = Some ?nm"
    by (simp add: example_defs)
  have sent2: "FetchInstructions ?u [] \<in> set (trace (snd (getCodexInstructions online no_cache)))"
    by (simp add: run_defs example_defs)
  have answer2: "fetch_instructions online ?u [] = Some ?ok"
    by (simp add: example_defs)
  have local: "response_ok (status ?ok) \<and> body ?ok \<noteq> None
      \<and> (cache_dir no_cache \<or> \<not> mkdir_fails online)
      \<and> \<not> write_cache_fails online \<and> \<not> write_metadata_fails online"
    by (simp add: example_defs response_ok_def)
  from not_modified_keeps_files_fresh_sets_lastChecked[OF sent1 answer1]
    not_modified_keeps_files_fresh_sets_lastChecked[OF sent2 answer2]
    local sent1 answer1 sent2 answer2
  show ?thesis by simp
qed

subsection \<open>C6\<close>

text \<open>
  Claim C6. In every call, a write of the metadata file is preceded by the write of the
  cache file and these are the only two writes; a response that is \<open>ok\<close>, whose body is
  read, with no local failure, has both files written, the cache file with the body;
  and a write happens only after a response that is \<open>ok\<close>.
\<close>

theorem metadata_written_only_after_artifact:
  "(\<forall>m. WriteMetadataFile m \<in> set (trace (snd (getCodexInstructions env f))) \<longrightarrow>
      (\<exists>c. file_writes (snd (getCodexInstructions env f)) = [WriteCacheFile c, WriteMetadataFile m]))
   \<and> (\<forall>u h r c. FetchInstructions u h \<in> set (trace (snd (getCodexInstructions env f)))
        \<and> fetch_instructions env u h = Some r \<and> response_ok (status r) \<and> body r = Some c
        \<and> (cache_dir f \<or> \<not> mkdir_fails env)
        \<and> \<not> write_cache_fails env \<and> \<not> write_metadata_fails env \<longrightarrow>
        (\<exists>m. file_writes (snd (getCodexInstructions env f)) = [WriteCacheFile c, WriteMetadataFile m]
           \<and> files (snd (getCodexInstructions env f))
               = f\<lparr>cache_dir := True, cache_file := Holds c, metadata_file := Holds m\<rparr>))
   \<and> (file_writes (snd (getCodexInstructions env f)) \<noteq> [] \<longrightarrow>
        (\<exists>u h r. FetchInstructions u h \<in> set (trace (snd (getCodexInstructions env f)))
           \<and> fetch_instructions env u h = Some r \<and> response_ok (status r)))"
proof -
  obtain res w where run: "getCodexInstructions env f = (res, w)"
    using run_exists by blast
  from run have a: "\<forall>m. WriteMetadataFile m \<in> set (trace w) \<longrightarrow>
      (\<exists>c. file_writes w = [WriteCacheFile c, WriteMetadataFile m])"
    by (cases rule: run_cases)
      (auto dest!: catch_blockD simp: requests_def mkdir_events_def file_writes_def
        split: if_splits)
  from run have b: "\<forall>u h r c. FetchInstructions u h \<in> set (trace w)
        \<and> fetch_instructions env u h = Some r \<and> response_ok (status r) \<and> body r = Some c
        \<and> (cache_dir f \<or> \<not> mkdir_fails env)
        \<and> \<not> write_cache_fails env \<and> \<not> write_metadata_fails env \<longrightarrow>
        (\<exists>m. file_writes w = [WriteCacheFile c, WriteMetadataFile m]
           \<and> files w = f\<lparr>cache_dir := True, cache_file := Holds c, metadata_file := Holds m\<rparr>)"
    by (cases rule: run_cases)
      (auto dest!: catch_blockD simp: requests_def mkdir_events_def file_writes_def
        response_ok_def split: if_splits)
  from run have c: "file_writes w \<noteq> [] \<longrightarrow>
        (\<exists>u h r. FetchInstructions u h \<in> set (trace w)
           \<and> fetch_instructions env u h = Some r \<and> response_ok (status r))"
    by (cases rule: run_cases)
      (auto dest!: catch_blockD simp: requests_def mkdir_events_def file_writes_def
        split: if_splits)
  from a b c run show ?thesis by simp
qed

text \<open>
  Witness for C6: an empty cache filled by a 200.
\<close>

theorem metadata_written_only_after_artifact_witness:
  "FetchInstructions (CODEX_INSTRUCTIONS_URL ''v2'') []
       \<in> set (trace (snd (getCodexInstructions online no_cache)))
   \<and> fetch_instructions online (CODEX_INSTRUCTIONS_URL ''v2'') []
       = Some \<lparr>status = 200, body = Some ''fresh'', etag_header = Some ''e1''\<rparr>
   \<and> (\<exists>m. file_writes (snd (getCodexInstructions online no_cache))
            = [WriteCacheFile ''fresh'', WriteMetadataFile m]
        \<and> files (snd (getCodexInstructions online no_cache))
            = no_cache\<lparr>cache_dir := True, cache_file := Holds ''fresh'', metadata_file := Holds m\<rparr>)"
proof -
  let ?u = "CODEX_INSTRUCTIONS_URL ''v2''"
  let ?ok = "\<lparr>status = 200, body = Some ''fresh'', etag_header = Some ''e1''\<rparr>"
  have sent: "FetchInstructions ?u [] \<in> set (trace (snd (getCodexInstructions online no_cache)))"
    by (simp add: run_defs example_defs)
  have answer: "fetch_instructions online ?u [] = Some ?ok"
    by (simp add: example_defs)
  have local: "response_ok (status ?ok) \<and> body ?ok = Some ''fresh''
      \<and> (cache_dir no_cache \<or> \<not> mkdir_fails online)
      \<and> \<not> write_cache_fails online \<and> \<not> write_metadata_fails online"
    by (simp add: example_defs response_ok_def)
  from metadata_written_only_after_artifact[of online no_cache] sent answer local
  have "\<exists>m. file_writes (snd (getCodexInstructions online no_cache))
            = [WriteCacheFile ''fresh'', WriteMetadataFile m]
        \<and> files (snd (getCodexInstructions online no_cache))
            = no_cache\<lparr>cache_dir := True, cache_file := Holds ''fresh'', metadata_file := Holds m\<rparr>"
    by blast
  with sent answer show ?thesis by blast
qed

subsection \<open>C7\<close>

text \<open>
  Claim C7, as amended. The claim says that an unreadable metadata file is taken as
  absent and that the call goes on to the network. The read is inside the \<open>try\<close>
  block with no handler of its own: when it throws, the call makes no network call,
  logs the failure, leaves the files as they are and serves the cache file when it
  holds content, the bundled document when there is no cache file.
\<close>

theorem unreadable_metadata_skips_network:
  assumes "metadata_file f = Unreadable"
  shows "network_calls (snd (getCodexInstructions env f)) = []
     \<and> files (snd (getCodexInstructions env f)) = f
     \<and> ConsoleError (FailedToFetch FsError) \<in> set (trace (snd (getCodexInstructions env f)))
     \<and> (cache_file f = Holds c \<longrightarrow> fst (getCodexInstructions env f) = Inr c)
     \<and> (cache_file f = Missing \<and> bundled_file f = Holds b
          \<longrightarrow> fst (getCodexInstructions env f) = Inr b)"
proof -
  obtain res w where run: "getCodexInstructions env f = (res, w)"
    using run_exists by blast
  from run have "network_calls w = [] \<and> files w = f
     \<and> ConsoleError (FailedToFetch FsError) \<in> set (trace w)
     \<and> (cache_file f = Holds c \<longrightarrow> res = Inr c)
     \<and> (cache_file f = Missing \<and> bundled_file f = Holds b \<longrightarrow> res = Inr b)"
    using assms
    by (cases rule: run_cases)
      (auto dest!: catch_blockD requestedD(3) simp: network_calls_def load_metadata_simps)
  with run show ?thesis by simp
qed

text \<open>
  Witness for C7: the metadata file is unreadable and the network reachable; with the
  cache of \<open>v2\<close> the cached text is served, with no cache file the bundled one.
\<close>

theorem unreadable_metadata_skips_network_witness:
  "metadata_file (cached_v2\<lparr>metadata_file := Unreadable\<rparr>) = Unreadable
   \<and> network_calls (snd (getCodexInstructions online (cached_v2\<lparr>metadata_file := Unreadable\<rparr>)))
       = []
   \<and> cache_file (cached_v2\<lparr>metadata_file := Unreadable\<rparr>) = Holds ''cached''
   \<and> fst (getCodexInstructions online (cached_v2\<lparr>metadata_file := Unreadable\<rparr>))
       = Inr ''cached''
   \<and> metadata_file (no_cache\<lparr>metadata_file := Unreadable\<rparr>) = Unreadable
   \<and> cache_file (no_cache\<lparr>metadata_file := Unreadable\<rparr>) = Missing
   \<and> bundled_file (no_cache\<lparr>metadata_file := Unreadable\<rparr>) = Holds ''bundled''
   \<and> fst (getCodexInstructions online (no_cache\<lparr>metadata_file := Unreadable\<rparr>))
       = Inr ''bundled''"
  using unreadable_metadata_skips_network
    [of "cached_v2\<lparr>metadata_file := Unreadable\<rparr>" online "''cached''" "''bundled''"]
    unreadable_metadata_skips_network
    [of "no_cache\<lparr>metadata_file := Unreadable\<rparr>" online "''cached''" "''bundled''"]
  by (simp add: example_defs)

text \<open>
  Counterexample to C7 as stated: no cache file, an unreadable metadata file and a
  reachable upstream. The call makes no request and serves the bundled document; with
  the metadata file absent, the same call makes both requests and serves the fresh
  document.
\<close>

theorem unreadable_metadata_is_not_absent:
  "metadata_file (no_cache\<lparr>metadata_file := Unreadable\<rparr>) = Unreadable
   \<and> getCodexInstructions online (no_cache\<lparr>metadata_file := Unreadable\<rparr>)
       = (Inr ''bundled'',
          \<lparr>files = no_cache\<lparr>metadata_file := Unreadable\<rparr>,
           trace = [ConsoleError (FailedToFetch FsError), ConsoleError FallingBackToBundled]\<rparr>)
   \<and> fst (getCodexInstructions online (no_cache\<lparr>metadata_file := Missing\<rparr>)) = Inr ''fresh''
   \<and> network_calls (snd (getCodexInstructions online (no_cache\<lparr>metadata_file := Missing\<rparr>)))
       = requests (CODEX_INSTRUCTIONS_URL ''v2'') []"
  by (simp add: run_defs example_defs)

subsection \<open>C8\<close>

text \<open>
  Claim C8, which the code does not meet. The metadata is of release \<open>v2\<close> with the
  ETag \<open>e1\<close> and is stale, the cache file is missing, the upstream answers the
  conditional request by 304 and would answer an unconditional one by the full
  document. The comment of line 77 announces a re-fetch; the call falls through to
  \<open>response.ok\<close>, which is false for a 304, throws \<open>HTTP 304\<close> and serves the
  bundled document. The only request for the instructions is the conditional one.
\<close>

theorem not_modified_without_cache_is_not_refetched:
  "fetch_instructions online (CODEX_INSTRUCTIONS_URL ''v2'') [(''If-None-Match'', ''e1'')]
     = Some \<lparr>status = 304, body = None, etag_header = None\<rparr>
   \<and> fetch_instructions online (CODEX_INSTRUCTIONS_URL ''v2'') []
     = Some \<lparr>status = 200, body = Some ''fresh'', etag_header = Some ''e1''\<rparr>
   \<and> getCodexInstructions online (cached_v2\<lparr>cache_file := Missing\<rparr>)
     = (Inr ''bundled'',
        \<lparr>files = cached_v2\<lparr>cache_file := Missing\<rparr>,
         trace = [FetchRelease GITHUB_API_RELEASES,
                  FetchInstructions (CODEX_INSTRUCTIONS_URL ''v2'') [(''If-None-Match'', ''e1'')],
                  ConsoleError (FailedToFetch (HttpError 304)),
                  ConsoleError FallingBackToBundled]\<rparr>)"
  by (simp add: run_defs example_defs)

subsection \<open>C9\<close>



subsection \<open>C10\<close>



end
